theory Spec2Isabelle
  imports Main "HOL-Library.Word" "HOL-Library.Sublist"
begin

section \<open>Identifiers, clock readings and errors\<close>

text \<open>
  A \<open>primitive.ObjectID\<close> is an array of 12 bytes, here a 96-bit word; \<open>IsZero\<close> holds of the
  all-zero identifier only. A \<open>time.Time\<close> is a point on an integer time line and a
  \<open>time.Duration\<close> an integer distance on it. What a call takes from outside the program
  is an argument of its function: the readings of \<open>time.Now()\<close>, the identifier from
  \<open>primitive.NewObjectID()\<close>, the random session token, the answers of bcrypt. A Go
  \<open>error\<close> is its message.
\<close>

type_synonym ObjectID = "96 word"
type_synonym Time = int
type_synonym Duration = int
type_synonym error = string

definition IsZero :: "ObjectID \<Rightarrow> bool" where
  "IsZero oid = (oid = 0)"

definition NilObjectID :: ObjectID where
  "NilObjectID = 0"

section \<open>The game entity (internal/domain/game/entity.go)\<close>

type_synonym GameStatus = string
type_synonym GameResult = string

definition GameStatusWaiting :: GameStatus where
  "GameStatusWaiting = ''waiting''"

definition GameStatusActive :: GameStatus where
  "GameStatusActive = ''active''"

definition GameStatusFinished :: GameStatus where
  "GameStatusFinished = ''finished''"

definition GameStatusAbandoned :: GameStatus where
  "GameStatusAbandoned = ''abandoned''"

definition GameResultWhiteWins :: GameResult where
  "GameResultWhiteWins = ''white_wins''"

definition GameResultBlackWins :: GameResult where
  "GameResultBlackWins = ''black_wins''"

definition GameResultDraw :: GameResult where
  "GameResultDraw = ''draw''"

definition GameResultAbandoned :: GameResult where
  "GameResultAbandoned = ''abandoned''"

record Move =
  From :: string
  To :: string
  Piece :: string
  Player :: string
  Timestamp :: Time
  Notation :: string

record Game =
  ID_g :: ObjectID
  WhitePlayer :: ObjectID
  BlackPlayer :: ObjectID
  Status :: GameStatus
  Result :: GameResult
  CurrentTurn :: string
  Moves :: "Move list"
  Board :: string
  CreatedAt_g :: Time
  UpdatedAt_g :: Time
  FinishedAt :: "Time option"

text \<open>
  \<open>NewGame\<close>: \<open>newID\<close> is the identifier drawn by \<open>primitive.NewObjectID()\<close>, \<open>now\<close> the
  clock reading. The fields the composite literal leaves out take Go's zero values.
\<close>

definition NewGame :: "ObjectID \<Rightarrow> ObjectID \<Rightarrow> Time \<Rightarrow> error + Game" where
  "NewGame whitePlayerID newID now =
     (if IsZero whitePlayerID then Inl ''white player ID cannot be empty''
      else Inr \<lparr> ID_g = newID,
                 WhitePlayer = whitePlayerID,
                 BlackPlayer = NilObjectID,
                 Status = GameStatusWaiting,
                 Result = [],
                 CurrentTurn = ''white'',
                 Moves = [],
                 Board = ''rnbqkbnr/pppppppp/8/8/8/8/PPPPPPPP/RNBQKBNR w KQkq - 0 1'',
                 CreatedAt_g = now,
                 UpdatedAt_g = now,
                 FinishedAt = None \<rparr>)"

text \<open>
  The methods below mutate the receiver and return an error or nil. Each one is a function
  from the game before the call to the returned error (\<open>None\<close> for nil) and the game after
  the call.
\<close>

definition JoinGame :: "Game \<Rightarrow> ObjectID \<Rightarrow> Time \<Rightarrow> error option \<times> Game" where
  "JoinGame g blackPlayerID now =
     (if IsZero blackPlayerID then (Some ''black player ID cannot be empty'', g)
      else if Status g \<noteq> GameStatusWaiting then (Some ''game is not waiting for players'', g)
      else if WhitePlayer g = blackPlayerID then
        (Some ''player cannot play against themselves'', g)
      else (None, g\<lparr> BlackPlayer := blackPlayerID,
                      Status := GameStatusActive,
                      UpdatedAt_g := now \<rparr>))"

text \<open>
  \<open>MakeMove\<close> reads the clock twice: \<open>t1\<close> stamps the move, \<open>t2\<close> the game.
\<close>

definition MakeMove ::
  "Game \<Rightarrow> ObjectID \<Rightarrow> string \<Rightarrow> string \<Rightarrow> string \<Rightarrow> string \<Rightarrow> Time \<Rightarrow> Time
     \<Rightarrow> error option \<times> Game" where
  "MakeMove g playerID from to piece notation t1 t2 =
     (if Status g \<noteq> GameStatusActive then (Some ''game is not active'', g)
      else if CurrentTurn g = ''white'' \<and> WhitePlayer g \<noteq> playerID then
        (Some ''it's not your turn'', g)
      else if CurrentTurn g = ''black'' \<and> BlackPlayer g \<noteq> playerID then
        (Some ''it's not your turn'', g)
      else
        let expectedPlayer = (if CurrentTurn g = ''white'' then ''white'' else ''black'');
            move = \<lparr> From = from, To = to, Piece = piece, Player = expectedPlayer,
                     Timestamp = t1, Notation = notation \<rparr>
        in (None, g\<lparr> Moves := Moves g @ [move],
                      CurrentTurn := (if CurrentTurn g = ''white'' then ''black'' else ''white''),
                      UpdatedAt_g := t2 \<rparr>))"

definition ResignGame :: "Game \<Rightarrow> ObjectID \<Rightarrow> Time \<Rightarrow> error option \<times> Game" where
  "ResignGame g playerID now =
     (if Status g \<noteq> GameStatusActive then (Some ''game is not active'', g)
      else if WhitePlayer g = playerID then
        (None, g\<lparr> Status := GameStatusFinished, Result := GameResultBlackWins,
                   FinishedAt := Some now, UpdatedAt_g := now \<rparr>)
      else if BlackPlayer g = playerID then
        (None, g\<lparr> Status := GameStatusFinished, Result := GameResultWhiteWins,
                   FinishedAt := Some now, UpdatedAt_g := now \<rparr>)
      else (Some ''player is not part of this game'', g))"

definition FinishGame :: "Game \<Rightarrow> GameResult \<Rightarrow> Time \<Rightarrow> error option \<times> Game" where
  "FinishGame g result now =
     (if Status g \<noteq> GameStatusActive then (Some ''game is not active'', g)
      else (None, g\<lparr> Status := GameStatusFinished, Result := result,
                      FinishedAt := Some now, UpdatedAt_g := now \<rparr>))"

definition IsPlayerInGame :: "Game \<Rightarrow> ObjectID \<Rightarrow> bool" where
  "IsPlayerInGame g playerID = (WhitePlayer g = playerID \<or> BlackPlayer g = playerID)"

definition IsValid_g :: "Game \<Rightarrow> error option" where
  "IsValid_g g =
     (if IsZero (WhitePlayer g) then Some ''white player cannot be empty''
      else if Status g = GameStatusActive \<and> IsZero (BlackPlayer g) then
        Some ''active game must have black player''
      else if CurrentTurn g \<noteq> ''white'' \<and> CurrentTurn g \<noteq> ''black'' then
        Some ''current turn must be white or black''
      else None)"

subsection \<open>Sequences of calls on one game\<close>

text \<open>
  A call of one of the four mutating methods, with its arguments and the clock readings
  it takes; \<open>call\<close> performs one, \<open>calls\<close> a sequence from left to right. A call that
  returns an error is part of the sequence like any other.
\<close>

datatype game_call =
    CallJoin ObjectID Time
  | CallMove ObjectID string string string string Time Time
  | CallResign ObjectID Time
  | CallFinish GameResult Time

fun call :: "Game \<Rightarrow> game_call \<Rightarrow> error option \<times> Game" where
  "call g (CallJoin b t) = JoinGame g b t"
| "call g (CallMove p f to pc n t1 t2) = MakeMove g p f to pc n t1 t2"
| "call g (CallResign p t) = ResignGame g p t"
| "call g (CallFinish r t) = FinishGame g r t"

fun calls :: "Game \<Rightarrow> game_call list \<Rightarrow> Game" where
  "calls g [] = g"
| "calls g (c # cs) = calls (snd (call g c)) cs"


section \<open>The game repository and service\<close>

text \<open>
  A MongoDB collection is the list of its documents. A driver call is one round trip; the
  repository carries the outcomes of the round trips still to come (\<open>None\<close>: the call goes
  through, \<open>Some e\<close>: the driver reports \<open>e\<close>), and an empty list means that no further
  call fails. \<open>FindOne\<close> returns the first document under the identifier.
\<close>

record GameRepo =
  docs_g :: "Game list"
  faults_g :: "error option list"

definition roundtrip_g :: "GameRepo \<Rightarrow> error option \<times> GameRepo" where
  "roundtrip_g r =
     (case faults_g r of [] \<Rightarrow> (None, r) | f # fs \<Rightarrow> (f, r\<lparr> faults_g := fs \<rparr>))"

definition FindByID_g :: "GameRepo \<Rightarrow> ObjectID \<Rightarrow> (error + Game) \<times> GameRepo" where
  "FindByID_g r gid =
     (case roundtrip_g r of
        (Some e, r') \<Rightarrow> (Inl e, r')
      | (None, r') \<Rightarrow>
          (case find (\<lambda>d. ID_g d = gid) (docs_g r') of
             None \<Rightarrow> (Inl ''game not found'', r')
           | Some g \<Rightarrow> (Inr g, r')))"

text \<open>
  \<open>$set\<close> with the entity writes every field of it except those tagged \<open>omitempty\<close>
  that hold their zero value, which keep what the stored document has.
\<close>

definition set_fields :: "Game \<Rightarrow> Game \<Rightarrow> Game" where
  "set_fields d g =
     g\<lparr> ID_g := (if IsZero (ID_g g) then ID_g d else ID_g g),
        BlackPlayer := (if IsZero (BlackPlayer g) then BlackPlayer d else BlackPlayer g),
        Result := (if Result g = [] then Result d else Result g),
        FinishedAt := (case FinishedAt g of None \<Rightarrow> FinishedAt d | Some t \<Rightarrow> Some t) \<rparr>"

fun UpdateOne_g :: "Game list \<Rightarrow> ObjectID \<Rightarrow> Game \<Rightarrow> Game list" where
  "UpdateOne_g [] gid g = []"
| "UpdateOne_g (d # ds) gid g =
     (if ID_g d = gid then set_fields d g # ds else d # UpdateOne_g ds gid g)"

text \<open>
  \<open>Update\<close> stamps the entity it is given, so it returns the entity too.
\<close>

definition Update_g :: "GameRepo \<Rightarrow> Game option \<Rightarrow> Time \<Rightarrow> error option \<times> GameRepo \<times> Game option" where
  "Update_g r gp now =
     (case gp of
        None \<Rightarrow> (Some ''game cannot be nil'', r, None)
      | Some g \<Rightarrow>
          if IsZero (ID_g g) then (Some ''game ID cannot be empty'', r, Some g)
          else
            let g' = g\<lparr> UpdatedAt_g := now \<rparr> in
            (case roundtrip_g r of
               (Some e, r') \<Rightarrow> (Some e, r', Some g')
             | (None, r') \<Rightarrow>
                 (None, r'\<lparr> docs_g := UpdateOne_g (docs_g r') (ID_g g') g' \<rparr>, Some g')))"

definition hexdigit :: "nat \<Rightarrow> char" where
  "hexdigit n = ''0123456789abcdef'' ! (n mod 16)"

definition Hex :: "ObjectID \<Rightarrow> string" where
  "Hex oid = map (\<lambda>i. hexdigit (unat (drop_bit (4 * (23 - i)) oid))) [0..<24]"

record MakeMoveRequest =
  rq_GameID :: ObjectID
  rq_PlayerID :: ObjectID
  rq_From :: string
  rq_To :: string
  rq_Piece :: string
  rq_Notation :: string

record GameResponse =
  Message_gr :: string
  Game_gr :: Game
  GameID_gr :: string

record gameService =
  gameRepo :: GameRepo

text \<open>
  \<open>gameService.MakeMove\<close>; the three clock readings are the two of the entity's
  \<open>MakeMove\<close> and the one of the repository's \<open>Update\<close>.
\<close>

definition MakeMove_svc ::
  "gameService \<Rightarrow> MakeMoveRequest \<Rightarrow> Time \<Rightarrow> Time \<Rightarrow> Time
     \<Rightarrow> (error + GameResponse) \<times> gameService" where
  "MakeMove_svc s req t1 t2 t3 =
     (if IsZero (rq_GameID req) then (Inl ''game ID is required'', s)
      else if IsZero (rq_PlayerID req) then (Inl ''player ID is required'', s)
      else if rq_From req = [] \<or> rq_To req = [] then
        (Inl ''from and to positions are required'', s)
      else
        (case FindByID_g (gameRepo s) (rq_GameID req) of
           (Inl e, r1) \<Rightarrow> (Inl (''failed to find game: '' @ e), s\<lparr> gameRepo := r1 \<rparr>)
         | (Inr gameEntity, r1) \<Rightarrow>
             (case MakeMove gameEntity (rq_PlayerID req) (rq_From req) (rq_To req)
                     (rq_Piece req) (rq_Notation req) t1 t2 of
                (Some e, _) \<Rightarrow> (Inl (''failed to make move: '' @ e), s\<lparr> gameRepo := r1 \<rparr>)
              | (None, g1) \<Rightarrow>
                  (case Update_g r1 (Some g1) t3 of
                     (Some e, r2, _) \<Rightarrow>
                       (Inl (''failed to update game: '' @ e), s\<lparr> gameRepo := r2 \<rparr>)
                   | (None, r2, None) \<Rightarrow>
                       (Inl ''failed to update game: game cannot be nil'', s\<lparr> gameRepo := r2 \<rparr>)
                   | (None, r2, Some g2) \<Rightarrow>
                       (Inr \<lparr> Message_gr = ''Move made successfully'',
                              Game_gr = g2,
                              GameID_gr = Hex (ID_g g2) \<rparr>,
                        s\<lparr> gameRepo := r2 \<rparr>)))))"


section \<open>The session entity (internal/domain/session/entity.go)\<close>

text \<open>
  Durations count nanoseconds, as \<open>time.Duration\<close> does.
\<close>

definition Hour :: Duration where
  "Hour = 3600000000000"

record Session =
  ID_s :: string
  UserID :: ObjectID
  CreatedAt_s :: Time
  ExpiresAt :: Time
  TTL :: Duration

text \<open>
  \<open>NewSession\<close> panics on bad parameters and when the random source fails; a panic is
  the \<open>Inl\<close> result here. \<open>token\<close> is what \<open>generateSessionID\<close> returns: the error of
  \<open>rand.Read\<close> or the hexadecimal form of 32 random bytes.
\<close>

definition NewSession :: "ObjectID \<Rightarrow> Duration \<Rightarrow> error + string \<Rightarrow> Time \<Rightarrow> error + Session" where
  "NewSession userID ttl token now =
     (if IsZero userID \<or> ttl \<le> 0 then Inl ''invalid session parameters''
      else
        (case token of
           Inl err \<Rightarrow> Inl (''failed to generate session ID: '' @ err)
         | Inr sessionID \<Rightarrow>
             Inr \<lparr> ID_s = sessionID, UserID = userID, CreatedAt_s = now,
                    ExpiresAt = now + ttl, TTL = ttl \<rparr>))"

definition IsExpired :: "Session \<Rightarrow> Time \<Rightarrow> bool" where
  "IsExpired s now = (now > ExpiresAt s)"

definition Refresh_s :: "Session \<Rightarrow> Duration \<Rightarrow> Time \<Rightarrow> Session" where
  "Refresh_s s ttl now =
     (if ttl \<le> 0 then s else s\<lparr> ExpiresAt := now + ttl, TTL := ttl \<rparr>)"

definition IsValid_s :: "Session \<Rightarrow> bool" where
  "IsValid_s s = (ID_s s \<noteq> [] \<and> \<not> IsZero (UserID s) \<and> TTL s > 0)"

section \<open>The Redis session repository (internal/adapters/redis/session_repository.go)\<close>

text \<open>
  The part of a Redis server the repository uses: string keys, each holding the JSON form
  of a session, and set keys, each holding session identifiers, every key with an optional
  deadline at which the server drops it. The two kinds of key never meet, as they start
  with \<open>session:\<close> and \<open>user_sessions:\<close>. \<open>json.Marshal\<close> followed by \<open>json.Unmarshal\<close>
  gives the session back, so a string key holds the session itself. A key is there at
  \<open>now\<close> while \<open>now\<close> is before its deadline. As for the game repository, \<open>faults_r\<close>
  lists the outcomes of the round trips to come; a pipeline is one round trip, and one
  that fails changes nothing.

  The repository hands its durations to the client library, go-redis, which is not part
  of the repository; what the library does with them is written here as the library has
  it. \<open>Set\<close> sends a positive expiration as \<open>PX\<close> in whole milliseconds when it is
  below a second or not a whole number of seconds (\<open>usePrecise\<close>, \<open>formatMs\<close>), as
  \<open>EX\<close> in whole seconds otherwise; \<open>KeepTTL\<close> (the duration -1) keeps the deadline
  the key has, any other expiration sets none. \<open>Expire\<close> always sends whole seconds
  (\<open>formatSec\<close>), and the server drops a key that is given no positive number of
  seconds. Both round towards zero, except that a positive duration below the unit
  counts as one unit.
\<close>

record Redis =
  strings :: "string \<rightharpoonup> Session \<times> Time option"
  sets :: "string \<rightharpoonup> string list \<times> Time option"
  faults_r :: "error option list"

definition roundtrip_r :: "Redis \<Rightarrow> error option \<times> Redis" where
  "roundtrip_r R =
     (case faults_r R of [] \<Rightarrow> (None, R) | f # fs \<Rightarrow> (f, R\<lparr> faults_r := fs \<rparr>))"

definition live :: "Time \<Rightarrow> Time option \<Rightarrow> bool" where
  "live now d = (case d of None \<Rightarrow> True | Some t \<Rightarrow> now < t)"

definition GET :: "Redis \<Rightarrow> Time \<Rightarrow> string \<Rightarrow> Session option" where
  "GET R now k =
     (case strings R k of
        None \<Rightarrow> None
      | Some (v, d) \<Rightarrow> if live now d then Some v else None)"

definition SMEMBERS :: "Redis \<Rightarrow> Time \<Rightarrow> string \<Rightarrow> string list" where
  "SMEMBERS R now k =
     (case sets R k of
        None \<Rightarrow> []
      | Some (ms, d) \<Rightarrow> if live now d then ms else [])"

definition Millisecond :: Duration where
  "Millisecond = 1000000"

definition Second :: Duration where
  "Second = 1000000000"

definition KeepTTL :: Duration where
  "KeepTTL = - 1"

text \<open>
  Go's division of integers, for a positive divisor: the quotient is rounded towards zero.
\<close>

definition quo :: "int \<Rightarrow> int \<Rightarrow> int" where
  "quo a b = (if 0 \<le> a then a div b else - ((- a) div b))"

definition usePrecise :: "Duration \<Rightarrow> bool" where
  "usePrecise dur = (dur < Second \<or> dur - quo dur Second * Second \<noteq> 0)"

definition formatMs :: "Duration \<Rightarrow> int" where
  "formatMs dur = (if dur > 0 \<and> dur < Millisecond then 1 else quo dur Millisecond)"

definition formatSec :: "Duration \<Rightarrow> int" where
  "formatSec dur = (if dur > 0 \<and> dur < Second then 1 else quo dur Second)"

definition SET :: "Redis \<Rightarrow> Time \<Rightarrow> string \<Rightarrow> Session \<Rightarrow> Duration \<Rightarrow> Redis" where
  "SET R now k v expiration =
     R\<lparr> strings := (strings R)(k \<mapsto> (v,
          if expiration > 0 then
            if usePrecise expiration then Some (now + formatMs expiration * Millisecond)
            else Some (now + formatSec expiration * Second)
          else if expiration = KeepTTL then
            (case strings R k of
               None \<Rightarrow> None
             | Some (v0, d) \<Rightarrow> if live now d then d else None)
          else None)) \<rparr>"

definition SADD :: "Redis \<Rightarrow> Time \<Rightarrow> string \<Rightarrow> string \<Rightarrow> Redis" where
  "SADD R now k m =
     (case sets R k of
        None \<Rightarrow> R\<lparr> sets := (sets R)(k \<mapsto> ([m], None)) \<rparr>
      | Some (ms, d) \<Rightarrow>
          if live now d then R\<lparr> sets := (sets R)(k \<mapsto> (List.insert m ms, d)) \<rparr>
          else R\<lparr> sets := (sets R)(k \<mapsto> ([m], None)) \<rparr>)"

definition SREM :: "Redis \<Rightarrow> Time \<Rightarrow> string \<Rightarrow> string \<Rightarrow> Redis" where
  "SREM R now k m =
     (case sets R k of
        None \<Rightarrow> R
      | Some (ms, d) \<Rightarrow>
          if live now d \<and> removeAll m ms \<noteq> [] then
            R\<lparr> sets := (sets R)(k \<mapsto> (removeAll m ms, d)) \<rparr>
          else R\<lparr> sets := (sets R)(k := None) \<rparr>)"

definition DEL :: "Redis \<Rightarrow> string \<Rightarrow> Redis" where
  "DEL R k = R\<lparr> strings := (strings R)(k := None), sets := (sets R)(k := None) \<rparr>"

definition EXPIRE :: "Redis \<Rightarrow> Time \<Rightarrow> string \<Rightarrow> Duration \<Rightarrow> Redis" where
  "EXPIRE R now k expiration =
     (let seconds = formatSec expiration in
      R\<lparr> strings :=
           (case strings R k of
              None \<Rightarrow> strings R
            | Some (v, d) \<Rightarrow>
                if live now d \<and> seconds > 0 then
                  (strings R)(k \<mapsto> (v, Some (now + seconds * Second)))
                else (strings R)(k := None)),
         sets :=
           (case sets R k of
              None \<Rightarrow> sets R
            | Some (ms, d) \<Rightarrow>
                if live now d \<and> seconds > 0 then
                  (sets R)(k \<mapsto> (ms, Some (now + seconds * Second)))
                else (sets R)(k := None)) \<rparr>)"

definition getKey :: "string \<Rightarrow> string" where
  "getKey sessionID = ''session:'' @ sessionID"

definition getUserSessionsKey :: "ObjectID \<Rightarrow> string" where
  "getUserSessionsKey userID = ''user_sessions:'' @ Hex userID"

text \<open>
  \<open>Save\<close>: \<open>now\<close> is the clock reading of its \<open>time.Until\<close>, which is later than the
  reading that made the session.
\<close>

definition Save :: "Redis \<Rightarrow> Session option \<Rightarrow> Time \<Rightarrow> error option \<times> Redis" where
  "Save R sp now =
     (case sp of
        None \<Rightarrow> (Some ''session cannot be nil'', R)
      | Some sess \<Rightarrow>
          if ID_s sess = [] \<or> IsZero (UserID sess) then (Some ''invalid session data'', R)
          else
            let key = getKey (ID_s sess);
                userSessionsKey = getUserSessionsKey (UserID sess);
                ttl = (if ExpiresAt sess - now \<le> 0 then 24 * Hour else ExpiresAt sess - now)
            in (case roundtrip_r R of
                  (Some e, R') \<Rightarrow> (Some (''failed to save session: '' @ e), R')
                | (None, R') \<Rightarrow>
                    (None, EXPIRE (SADD (SET R' now key sess ttl) now userSessionsKey (ID_s sess))
                                  now userSessionsKey ttl)))"

text \<open>
  \<open>strings.Contains\<close>.
\<close>

definition Contains :: "string \<Rightarrow> string \<Rightarrow> bool" where
  "Contains s substr = sublist substr s"

text \<open>
  \<open>FindByID\<close> calls \<open>Delete\<close> on an expired session and \<open>Delete\<close> starts with
  \<open>FindByID\<close>, so the two are defined together, with a bound on the depth of the calls:
  \<open>None\<close> says that the bound was reached before the call returned. The clock reading
  \<open>now\<close> is the same through one call.
\<close>

fun FindByID :: "nat \<Rightarrow> Redis \<Rightarrow> string \<Rightarrow> Time \<Rightarrow> ((error + Session) \<times> Redis) option"
  and Delete :: "nat \<Rightarrow> Redis \<Rightarrow> string \<Rightarrow> Time \<Rightarrow> (error option \<times> Redis) option" where
  "FindByID 0 R sessionID now = None"
| "FindByID (Suc n) R sessionID now =
     (case roundtrip_r R of
        (Some e, R1) \<Rightarrow> Some (Inl (''failed to get session: '' @ e), R1)
      | (None, R1) \<Rightarrow>
          (case GET R1 now (getKey sessionID) of
             None \<Rightarrow> Some (Inl ''session not found'', R1)
           | Some sess \<Rightarrow>
               if IsExpired sess now then
                 (case Delete n R1 sessionID now of
                    None \<Rightarrow> None
                  | Some (_, R2) \<Rightarrow> Some (Inl ''session expired'', R2))
               else Some (Inr sess, R1)))"
| "Delete 0 R sessionID now = None"
| "Delete (Suc n) R sessionID now =
     (case FindByID n R sessionID now of
        None \<Rightarrow> None
      | Some (Inl err, R1) \<Rightarrow>
          if Contains err ''not found'' then Some (None, R1) else Some (Some err, R1)
      | Some (Inr sess, R1) \<Rightarrow>
          (case roundtrip_r R1 of
             (Some e, R2) \<Rightarrow> Some (Some (''failed to delete session: '' @ e), R2)
           | (None, R2) \<Rightarrow>
               Some (None, SREM (DEL R2 (getKey sessionID)) now
                                (getUserSessionsKey (UserID sess)) sessionID)))"

definition DeleteByUserID :: "Redis \<Rightarrow> ObjectID \<Rightarrow> Time \<Rightarrow> error option \<times> Redis" where
  "DeleteByUserID R userID now =
     (let userSessionsKey = getUserSessionsKey userID in
      case roundtrip_r R of
        (Some e, R1) \<Rightarrow> (Some (''failed to get user sessions: '' @ e), R1)
      | (None, R1) \<Rightarrow>
          let sessionIDs = SMEMBERS R1 now userSessionsKey in
          if length sessionIDs = 0 then (None, R1)
          else
            (case roundtrip_r R1 of
               (Some e, R2) \<Rightarrow> (Some (''failed to delete user sessions: '' @ e), R2)
             | (None, R2) \<Rightarrow>
                 (None, DEL (fold (\<lambda>sessionID Rp. DEL Rp (getKey sessionID)) sessionIDs R2)
                            userSessionsKey)))"

definition Refresh :: "nat \<Rightarrow> Redis \<Rightarrow> string \<Rightarrow> Duration \<Rightarrow> Time \<Rightarrow> (error option \<times> Redis) option" where
  "Refresh fuel R sessionID ttl now =
     (case FindByID fuel R sessionID now of
        None \<Rightarrow> None
      | Some (Inl err, R1) \<Rightarrow> Some (Some err, R1)
      | Some (Inr sess, R1) \<Rightarrow>
          (case roundtrip_r R1 of
             (Some e, R2) \<Rightarrow> Some (Some (''failed to refresh session: '' @ e), R2)
           | (None, R2) \<Rightarrow>
               Some (None, EXPIRE (EXPIRE R2 now (getKey sessionID) ttl) now
                                  (getUserSessionsKey (UserID sess)) ttl)))"


section \<open>The user entity and its repository\<close>

record User =
  ID_u :: ObjectID
  Username :: string
  Password :: string
  CreatedAt_u :: Time
  UpdatedAt_u :: Time

text \<open>
  \<open>NewUser\<close>: \<open>hashed\<close> is what \<open>bcrypt.GenerateFromPassword\<close> returns for the password,
  \<open>newID\<close> the identifier drawn for the user.
\<close>

definition NewUser :: "string \<Rightarrow> string \<Rightarrow> error + string \<Rightarrow> ObjectID \<Rightarrow> Time \<Rightarrow> error + User" where
  "NewUser username password hashed newID now =
     (if username = [] then Inl ''username cannot be empty''
      else if password = [] then Inl ''password cannot be empty''
      else if length password < 6 then Inl ''password must be at least 6 characters''
      else
        (case hashed of
           Inl err \<Rightarrow> Inl err
         | Inr hashedPassword \<Rightarrow>
             Inr \<lparr> ID_u = newID, Username = username, Password = hashedPassword,
                    CreatedAt_u = now, UpdatedAt_u = now \<rparr>))"

text \<open>
  The zero \<open>time.Time\<close> is the first instant of year 1, in nanoseconds before the epoch
  of the time line.
\<close>

definition zeroTime :: Time where
  "zeroTime = - 62135596800 * 1000000000"

record UserRepo =
  docs_u :: "User list"
  faults_u :: "error option list"

definition roundtrip_u :: "UserRepo \<Rightarrow> error option \<times> UserRepo" where
  "roundtrip_u r =
     (case faults_u r of [] \<Rightarrow> (None, r) | f # fs \<Rightarrow> (f, r\<lparr> faults_u := fs \<rparr>))"

definition ExistsByUsername :: "UserRepo \<Rightarrow> string \<Rightarrow> (error + bool) \<times> UserRepo" where
  "ExistsByUsername r username =
     (case roundtrip_u r of
        (Some e, r') \<Rightarrow> (Inl e, r')
      | (None, r') \<Rightarrow>
          (Inr (length (filter (\<lambda>d. Username d = username) (docs_u r')) > 0), r'))"

text \<open>
  \<open>Save\<close> stamps the user before the insert and returns it. \<open>InsertOne\<close> reports a
  duplicate key when a document has the same identifier or, by the unique index on
  \<open>username\<close>, the same name.
\<close>

definition Save_u :: "UserRepo \<Rightarrow> User option \<Rightarrow> Time \<Rightarrow> error option \<times> UserRepo \<times> User option" where
  "Save_u r up now =
     (case up of
        None \<Rightarrow> (Some ''user cannot be nil'', r, None)
      | Some u \<Rightarrow>
          if Username u = [] then (Some ''username cannot be empty'', r, Some u)
          else
            let u' = u\<lparr> CreatedAt_u := (if CreatedAt_u u = zeroTime then now else CreatedAt_u u),
                        UpdatedAt_u := now \<rparr>
            in (case roundtrip_u r of
                  (Some e, r') \<Rightarrow> (Some e, r', Some u')
                | (None, r') \<Rightarrow>
                    if find (\<lambda>d. ID_u d = ID_u u' \<or> Username d = Username u') (docs_u r') \<noteq> None
                    then (Some ''username already exists'', r', Some u')
                    else (None, r'\<lparr> docs_u := docs_u r' @ [u'] \<rparr>, Some u')))"

fun DeleteOne_u :: "User list \<Rightarrow> ObjectID \<Rightarrow> User list" where
  "DeleteOne_u [] uid = []"
| "DeleteOne_u (d # ds) uid = (if ID_u d = uid then ds else d # DeleteOne_u ds uid)"

definition Delete_u :: "UserRepo \<Rightarrow> ObjectID \<Rightarrow> error option \<times> UserRepo" where
  "Delete_u r uid =
     (case roundtrip_u r of
        (Some e, r') \<Rightarrow> (Some e, r')
      | (None, r') \<Rightarrow>
          let remaining = DeleteOne_u (docs_u r') uid;
              DeletedCount = length (docs_u r') - length remaining
          in if DeletedCount = 0 then (Some ''user not found'', r'\<lparr> docs_u := remaining \<rparr>)
             else (None, r'\<lparr> docs_u := remaining \<rparr>))"

section \<open>The authentication service (internal/application/auth/service.go)\<close>

record authService =
  userRepo :: UserRepo
  sessionRepo :: Redis
  sessionTTL :: Duration

definition NewAuthService :: "UserRepo \<Rightarrow> Redis \<Rightarrow> authService" where
  "NewAuthService ur sr = \<lparr> userRepo = ur, sessionRepo = sr, sessionTTL = 24 * Hour \<rparr>"

record SignupRequest =
  rq_Username :: string
  rq_Password :: string

record AuthResponse =
  Message_ar :: string
  UserID_ar :: string
  SessionID_ar :: string
  User_ar :: User

text \<open>
  \<open>Signup\<close>: \<open>hashed\<close>, \<open>newID\<close> and \<open>token\<close> are what bcrypt, the identifier source and
  the random source give during the call. \<open>now\<close> is the clock reading up to and in
  \<open>NewSession\<close>, \<open>now2\<close> the one that the session repository's \<open>Save\<close> takes
  afterwards.
\<close>

definition Signup ::
  "authService \<Rightarrow> SignupRequest \<Rightarrow> error + string \<Rightarrow> ObjectID \<Rightarrow> error + string \<Rightarrow> Time
     \<Rightarrow> Time \<Rightarrow> (error + AuthResponse) \<times> authService" where
  "Signup s req hashed newID token now now2 =
     (if rq_Username req = [] \<or> rq_Password req = [] then
        (Inl ''username and password are required'', s)
      else if length (rq_Username req) < 3 then
        (Inl ''username must be at least 3 characters long'', s)
      else if length (rq_Password req) < 6 then
        (Inl ''password must be at least 6 characters long'', s)
      else
        (case ExistsByUsername (userRepo s) (rq_Username req) of
           (Inl err, u1) \<Rightarrow> (Inl err, s\<lparr> userRepo := u1 \<rparr>)
         | (Inr exists, u1) \<Rightarrow>
             if exists then (Inl ''username already exists'', s\<lparr> userRepo := u1 \<rparr>)
             else
               (case NewUser (rq_Username req) (rq_Password req) hashed newID now of
                  Inl err \<Rightarrow> (Inl err, s\<lparr> userRepo := u1 \<rparr>)
                | Inr newUser0 \<Rightarrow>
                    (case Save_u u1 (Some newUser0) now of
                       (Some err, u2, _) \<Rightarrow> (Inl err, s\<lparr> userRepo := u2 \<rparr>)
                     | (None, u2, None) \<Rightarrow> (Inl ''user cannot be nil'', s\<lparr> userRepo := u2 \<rparr>)
                     | (None, u2, Some newUser) \<Rightarrow>
                         (case NewSession (ID_u newUser) (sessionTTL s) token now of
                            Inl p \<Rightarrow> (Inl p, s\<lparr> userRepo := u2 \<rparr>)
                          | Inr newSession \<Rightarrow>
                              (case Save (sessionRepo s) (Some newSession) now2 of
                                 (Some err, r1) \<Rightarrow>
                                   (Inl err, s\<lparr> userRepo := u2, sessionRepo := r1 \<rparr>)
                               | (None, r1) \<Rightarrow>
                                   (Inr \<lparr> Message_ar = ''User registered successfully'',
                                          UserID_ar = Hex (ID_u newUser),
                                          SessionID_ar = ID_s newSession,
                                          User_ar = newUser \<rparr>,
                                    s\<lparr> userRepo := u2, sessionRepo := r1 \<rparr>)))))))"

definition RefreshSession :: "nat \<Rightarrow> authService \<Rightarrow> string \<Rightarrow> Time \<Rightarrow> (error option \<times> authService) option" where
  "RefreshSession fuel s sessionID now =
     (if sessionID = [] then Some (Some ''session ID is required'', s)
      else
        (case Refresh fuel (sessionRepo s) sessionID (sessionTTL s) now of
           None \<Rightarrow> None
         | Some (err, r1) \<Rightarrow> Some (err, s\<lparr> sessionRepo := r1 \<rparr>)))"

text \<open>
  \<open>ValidateSession\<close> reads the clock again after \<open>FindByID\<close> has returned: \<open>now\<close> is the
  reading during \<open>FindByID\<close>, \<open>now2\<close> the one of the service's own expiry check and of
  the \<open>Delete\<close> that follows it.
\<close>

definition ValidateSession ::
  "nat \<Rightarrow> authService \<Rightarrow> string \<Rightarrow> Time \<Rightarrow> Time \<Rightarrow> ((error + ObjectID) \<times> authService) option" where
  "ValidateSession fuel s sessionID now now2 =
     (if sessionID = [] then Some (Inl ''session ID is required'', s)
      else
        (case FindByID fuel (sessionRepo s) sessionID now of
           None \<Rightarrow> None
         | Some (Inl err, r1) \<Rightarrow> Some (Inl err, s\<lparr> sessionRepo := r1 \<rparr>)
         | Some (Inr sess, r1) \<Rightarrow>
             if IsExpired sess now2 then
               (case Delete fuel r1 sessionID now2 of
                  None \<Rightarrow> None
                | Some (_, r2) \<Rightarrow> Some (Inl ''session expired'', s\<lparr> sessionRepo := r2 \<rparr>))
             else Some (Inr (UserID sess), s\<lparr> sessionRepo := r1 \<rparr>)))"

definition DeleteUser :: "authService \<Rightarrow> ObjectID \<Rightarrow> Time \<Rightarrow> error option \<times> authService" where
  "DeleteUser s userID now =
     (case DeleteByUserID (sessionRepo s) userID now of
        (Some err, r1) \<Rightarrow> (Some err, s\<lparr> sessionRepo := r1 \<rparr>)
      | (None, r1) \<Rightarrow>
          (case Delete_u (userRepo s) userID of
             (err, u1) \<Rightarrow> (err, s\<lparr> sessionRepo := r1, userRepo := u1 \<rparr>)))"


section \<open>Example values\<close>

text \<open>
  A game before and after the second player joined, and a session store before a session
  is saved (\<open>redis0\<close>), after it was saved at time 0 (\<open>redis1\<close>) and after it was
  refreshed at 12 hours (\<open>redis2\<close>). \<open>redis3\<close> is the store after a signup whose
  session was made at time 0 and saved a millisecond later, \<open>service3\<close> the service
  after that signup.
\<close>

definition game0 :: Game where
  "game0 = \<lparr> ID_g = 7, WhitePlayer = 1, BlackPlayer = NilObjectID,
              Status = GameStatusWaiting, Result = [], CurrentTurn = ''white'', Moves = [],
              Board = ''rnbqkbnr/pppppppp/8/8/8/8/PPPPPPPP/RNBQKBNR w KQkq - 0 1'',
              CreatedAt_g = 0, UpdatedAt_g = 0, FinishedAt = None \<rparr>"

definition game1 :: Game where
  "game1 = game0\<lparr> BlackPlayer := 2, Status := GameStatusActive, UpdatedAt_g := 5 \<rparr>"

definition move1 :: Move where
  "move1 = \<lparr> From = ''e2'', To = ''e9'', Piece = ''dragon'', Player = ''white'',
              Timestamp = 8, Notation = ''??'' \<rparr>"

definition session0 :: Session where
  "session0 = \<lparr> ID_s = ''tok'', UserID = 1, CreatedAt_s = 0, ExpiresAt = 24 * Hour,
                 TTL = 24 * Hour \<rparr>"

definition redis0 :: Redis where
  "redis0 = \<lparr> strings = Map.empty, sets = Map.empty, faults_r = [] \<rparr>"

definition redis1 :: Redis where
  "redis1 = \<lparr> strings = [getKey ''tok'' \<mapsto> (session0, Some (24 * Hour))],
               sets = [getUserSessionsKey 1 \<mapsto> ([''tok''], Some (24 * Hour))],
               faults_r = [] \<rparr>"

definition user1 :: User where
  "user1 = \<lparr> ID_u = 1, Username = ''alice'', Password = ''$2a$10$hash'', CreatedAt_u = 0,
              UpdatedAt_u = 0 \<rparr>"

definition users1 :: UserRepo where
  "users1 = \<lparr> docs_u = [user1], faults_u = [] \<rparr>"

definition redis2 :: Redis where
  "redis2 = \<lparr> strings = [getKey ''tok'' \<mapsto> (session0, Some (36 * Hour))],
               sets = [getUserSessionsKey 1 \<mapsto> ([''tok''], Some (36 * Hour))],
               faults_r = [] \<rparr>"

definition users0 :: UserRepo where
  "users0 = \<lparr> docs_u = [], faults_u = [] \<rparr>"

definition redis3 :: Redis where
  "redis3 = \<lparr> strings = [getKey ''tok'' \<mapsto> (session0, Some (24 * Hour))],
               sets = [getUserSessionsKey 1 \<mapsto>
                         ([''tok''], Some (Millisecond + 86399 * Second))],
               faults_r = [] \<rparr>"

definition service3 :: authService where
  "service3 = \<lparr> userRepo = users1, sessionRepo = redis3, sessionTTL = 24 * Hour \<rparr>"

section \<open>Invariants of a game\<close>

definition players_ok :: "Game \<Rightarrow> bool" where
  "players_ok g =
     (\<not> IsZero (WhitePlayer g) \<and> (Status g = GameStatusActive \<longrightarrow> \<not> IsZero (BlackPlayer g)))"

definition turn_ok :: "Game \<Rightarrow> bool" where
  "turn_ok g = (CurrentTurn g = ''white'' \<or> CurrentTurn g = ''black'')"

definition status_ok :: "Game \<Rightarrow> bool" where
  "status_ok g =
     (Status g = GameStatusWaiting \<or> Status g = GameStatusActive \<or>
      Status g = GameStatusFinished)"

section \<open>Properties of the game entity\<close>

lemmas game_op_defs = JoinGame_def MakeMove_def ResignGame_def FinishGame_def

lemmas game_status_defs =
  GameStatusWaiting_def GameStatusActive_def GameStatusFinished_def GameStatusAbandoned_def

lemma NewGame_game0: "NewGame 1 7 0 = Inr game0"
  by (simp add: NewGame_def game0_def IsZero_def)

lemma JoinGame_game0: "JoinGame game0 2 5 = (None, game1)"
  by (simp add: JoinGame_def game0_def game1_def IsZero_def game_status_defs)

subsection \<open>Both players of an active game\<close>

lemma players_ok_NewGame: "NewGame w i t = Inr g \<Longrightarrow> players_ok g"
  by (auto simp: NewGame_def players_ok_def game_status_defs split: if_splits)

lemma players_ok_call: "players_ok g \<Longrightarrow> players_ok (snd (call g c))"
  by (cases c) (auto simp: players_ok_def game_op_defs Let_def game_status_defs)

lemma players_ok_calls: "players_ok g \<Longrightarrow> players_ok (calls g cs)"
  by (induction cs arbitrary: g) (simp_all add: players_ok_call)

lemma turn_ok_NewGame: "NewGame w i t = Inr g \<Longrightarrow> turn_ok g"
  by (auto simp: NewGame_def turn_ok_def split: if_splits)

lemma turn_ok_call: "turn_ok g \<Longrightarrow> turn_ok (snd (call g c))"
  by (cases c) (auto simp: turn_ok_def game_op_defs Let_def)

lemma turn_ok_calls: "turn_ok g \<Longrightarrow> turn_ok (calls g cs)"
  by (induction cs arbitrary: g) (simp_all add: turn_ok_call)

lemma reachable_game_IsValid:
  assumes "NewGame w i t = Inr g0"
  shows "IsValid_g (calls g0 cs) = None"
  using players_ok_calls [OF players_ok_NewGame [OF assms], of cs]
    turn_ok_calls [OF turn_ok_NewGame [OF assms], of cs]
  by (simp add: IsValid_g_def players_ok_def turn_ok_def)

text \<open>
  C2. A game made by \<open>NewGame\<close> and taken through any sequence of \<open>JoinGame\<close>, \<open>MakeMove\<close>,
  \<open>ResignGame\<close> and \<open>FinishGame\<close> calls, failed ones included, has a non-zero white
  player and a non-zero black player whenever its status is active.
\<close>

theorem active_game_has_both_players:
  assumes "NewGame w i t = Inr g0"
    and "Status (calls g0 cs) = GameStatusActive"
  shows "\<not> IsZero (WhitePlayer (calls g0 cs)) \<and> \<not> IsZero (BlackPlayer (calls g0 cs))"
  using players_ok_calls [OF players_ok_NewGame [OF assms(1)], of cs] assms(2)
  by (simp add: players_ok_def)

theorem active_game_has_both_players_witness:
  "NewGame 1 7 0 = Inr game0 \<and>
   Status (calls game0 [CallJoin 2 5, CallResign 9 6]) = GameStatusActive \<and>
   \<not> IsZero (WhitePlayer (calls game0 [CallJoin 2 5, CallResign 9 6])) \<and>
   \<not> IsZero (BlackPlayer (calls game0 [CallJoin 2 5, CallResign 9 6]))"
proof -
  have run: "calls game0 [CallJoin 2 5, CallResign 9 6] = game1"
    by (simp add: JoinGame_game0) (simp add: ResignGame_def game1_def game0_def)
  have act: "Status (calls game0 [CallJoin 2 5, CallResign 9 6]) = GameStatusActive"
    unfolding run by (simp add: game1_def)
  show ?thesis
    using NewGame_game0 act active_game_has_both_players [OF NewGame_game0 act] by simp
qed

subsection \<open>Moving out of turn\<close>

text \<open>
  C3. On an active game, \<open>MakeMove\<close> by a player who is not the one to move (the turn is
  white and the player is not the white player, or the turn is black and the player is not
  the black player) returns the error "it's not your turn" and the game after the call is
  the game before it, field by field.
\<close>

theorem MakeMove_out_of_turn_rejected:
  assumes "Status g = GameStatusActive"
    and "(CurrentTurn g = ''white'' \<and> p \<noteq> WhitePlayer g) \<or>
         (CurrentTurn g = ''black'' \<and> p \<noteq> BlackPlayer g)"
  shows "MakeMove g p f to pc n t1 t2 = (Some ''it's not your turn'', g)"
  using assms by (auto simp: MakeMove_def)

theorem MakeMove_out_of_turn_rejected_witness:
  "Status game1 = GameStatusActive \<and>
   ((CurrentTurn game1 = ''white'' \<and> 2 \<noteq> WhitePlayer game1) \<or>
    (CurrentTurn game1 = ''black'' \<and> 2 \<noteq> BlackPlayer game1)) \<and>
   MakeMove game1 2 ''e7'' ''e5'' ''pawn'' ''e5'' 8 9 = (Some ''it's not your turn'', game1)"
proof -
  have a: "Status game1 = GameStatusActive"
    by (simp add: game1_def)
  have b: "(CurrentTurn game1 = ''white'' \<and> 2 \<noteq> WhitePlayer game1) \<or>
           (CurrentTurn game1 = ''black'' \<and> 2 \<noteq> BlackPlayer game1)"
    by (simp add: game1_def game0_def)
  show ?thesis
    using a b MakeMove_out_of_turn_rejected [OF a b, of "''e7''" "''e5''" "''pawn''" "''e5''" 8 9]
    by simp
qed

subsection \<open>Joining one's own game\<close>

text \<open>
  C4. On a waiting game, \<open>JoinGame\<close> with the game's own white player as the black player
  returns an error, and the game after the call is the game before it: the status is still
  waiting and the black player is what it was.
\<close>

theorem JoinGame_own_game_rejected:
  assumes "Status g = GameStatusWaiting"
  shows "fst (JoinGame g (WhitePlayer g) t) \<noteq> None \<and> snd (JoinGame g (WhitePlayer g) t) = g"
  using assms by (simp add: JoinGame_def)

theorem JoinGame_own_game_rejected_witness:
  "Status game0 = GameStatusWaiting \<and>
   fst (JoinGame game0 (WhitePlayer game0) 5) \<noteq> None \<and>
   snd (JoinGame game0 (WhitePlayer game0) 5) = game0"
proof -
  have a: "Status game0 = GameStatusWaiting"
    by (simp add: game0_def)
  show ?thesis
    using a JoinGame_own_game_rejected [OF a, of 5] by simp
qed


subsection \<open>A move in turn\<close>

lemma find_ID_g: "find (\<lambda>d. ID_g d = gid) ds = Some g \<Longrightarrow> ID_g g = gid"
  by (induction ds) (auto split: if_splits)

lemma find_UpdateOne_g:
  "find (\<lambda>d. ID_g d = gid) ds = Some g \<Longrightarrow> ID_g g' = gid \<Longrightarrow> \<not> IsZero gid \<Longrightarrow>
   find (\<lambda>d. ID_g d = gid) (UpdateOne_g ds gid g') = Some (set_fields g g')"
  by (induction ds) (auto simp: set_fields_def)

lemma roundtrip_g_nofault: "faults_g r = [] \<Longrightarrow> roundtrip_g r = (None, r)"
  by (simp add: roundtrip_g_def)

lemma MakeMove_in_turn:
  assumes "Status g = GameStatusActive"
    and "(CurrentTurn g = ''white'' \<and> p = WhitePlayer g) \<or>
         (CurrentTurn g = ''black'' \<and> p = BlackPlayer g)"
  shows "MakeMove g p f to pc n t1 t2 =
           (None, g\<lparr> Moves := Moves g @ [\<lparr> From = f, To = to, Piece = pc,
                                             Player = CurrentTurn g, Timestamp = t1,
                                             Notation = n \<rparr>],
                      CurrentTurn := (if CurrentTurn g = ''white'' then ''black'' else ''white''),
                      UpdatedAt_g := t2 \<rparr>)"
  using assms by (auto simp: MakeMove_def Let_def)

lemma MakeMove_svc_in_turn:
  assumes st: "Status g = GameStatusActive"
    and turn: "(CurrentTurn g = ''white'' \<and> rq_PlayerID req = WhitePlayer g) \<or>
               (CurrentTurn g = ''black'' \<and> rq_PlayerID req = BlackPlayer g)"
    and nf: "faults_g (gameRepo s) = []"
    and fnd: "find (\<lambda>d. ID_g d = rq_GameID req) (docs_g (gameRepo s)) = Some g"
    and nz: "\<not> IsZero (rq_GameID req)" "\<not> IsZero (rq_PlayerID req)"
    and ne: "rq_From req \<noteq> []" "rq_To req \<noteq> []"
    and g': "g' = g\<lparr> Moves := Moves g @ [\<lparr> From = rq_From req, To = rq_To req,
                                             Piece = rq_Piece req, Player = CurrentTurn g,
                                             Timestamp = t1, Notation = rq_Notation req \<rparr>],
                      CurrentTurn := (if CurrentTurn g = ''white'' then ''black'' else ''white''),
                      UpdatedAt_g := t3 \<rparr>"
  shows "MakeMove_svc s req t1 t2 t3 =
           (Inr \<lparr> Message_gr = ''Move made successfully'', Game_gr = g',
                  GameID_gr = Hex (rq_GameID req) \<rparr>,
            s\<lparr> gameRepo := (gameRepo s)\<lparr> docs_g :=
                  UpdateOne_g (docs_g (gameRepo s)) (rq_GameID req) g' \<rparr> \<rparr>)"
proof -
  have idg: "ID_g g = rq_GameID req"
    using fnd by (rule find_ID_g)
  have f: "FindByID_g (gameRepo s) (rq_GameID req) = (Inr g, gameRepo s)"
    by (simp add: FindByID_g_def roundtrip_g_nofault [OF nf] fnd)
  note m = MakeMove_in_turn [OF st turn, of "rq_From req" "rq_To req" "rq_Piece req"
                              "rq_Notation req" t1 t2]
  have u: "Update_g (gameRepo s) (Some (snd (MakeMove g (rq_PlayerID req) (rq_From req)
               (rq_To req) (rq_Piece req) (rq_Notation req) t1 t2))) t3 =
             (None, (gameRepo s)\<lparr> docs_g :=
                       UpdateOne_g (docs_g (gameRepo s)) (rq_GameID req) g' \<rparr>, Some g')"
    using nz(1) by (simp add: m Update_g_def roundtrip_g_nofault [OF nf] g' idg Let_def)
  show ?thesis
    using nz ne u by (simp add: MakeMove_svc_def f m) (simp add: g' idg)
qed

text \<open>
  C5. On an active game, \<open>MakeMove\<close> by the player whose colour is the current turn
  returns no error, whatever the four strings are: the game after the call has exactly one
  more move, at the end of the list, holding the four strings as given and the side that
  was to move, and the turn is the other colour; the board and every field other than the
  moves, the turn and the update time are as before. Through the service, with non-zero
  game and player identifiers, non-empty \<open>from\<close> and \<open>to\<close> and a repository that reports
  no failure, the same game is returned in the response and the stored game has the same
  move list and turn.
\<close>

theorem MakeMove_in_turn_appends:
  assumes "Status g = GameStatusActive"
    and "(CurrentTurn g = ''white'' \<and> p = WhitePlayer g) \<or>
         (CurrentTurn g = ''black'' \<and> p = BlackPlayer g)"
  shows
    "let m = \<lparr> From = f, To = to, Piece = pc, Player = CurrentTurn g, Timestamp = t1,
               Notation = n \<rparr>;
         turn = (if CurrentTurn g = ''white'' then ''black'' else ''white'');
         req = \<lparr> rq_GameID = gid, rq_PlayerID = p, rq_From = f, rq_To = to, rq_Piece = pc,
                 rq_Notation = n \<rparr>
     in MakeMove g p f to pc n t1 t2 =
          (None, g\<lparr> Moves := Moves g @ [m], CurrentTurn := turn, UpdatedAt_g := t2 \<rparr>) \<and>
        (faults_g (gameRepo s) = [] \<and>
         find (\<lambda>d. ID_g d = gid) (docs_g (gameRepo s)) = Some g \<and>
         \<not> IsZero gid \<and> \<not> IsZero p \<and> f \<noteq> [] \<and> to \<noteq> [] \<longrightarrow>
           fst (MakeMove_svc s req t1 t2 t3) =
             Inr \<lparr> Message_gr = ''Move made successfully'',
                    Game_gr = g\<lparr> Moves := Moves g @ [m], CurrentTurn := turn,
                                  UpdatedAt_g := t3 \<rparr>,
                    GameID_gr = Hex gid \<rparr> \<and>
           map_option (\<lambda>d. (Moves d, CurrentTurn d))
             (find (\<lambda>d. ID_g d = gid) (docs_g (gameRepo (snd (MakeMove_svc s req t1 t2 t3))))) =
             Some (Moves g @ [m], turn))"
proof -
  define m where "m = \<lparr> From = f, To = to, Piece = pc, Player = CurrentTurn g,
                         Timestamp = t1, Notation = n \<rparr>"
  define turn where "turn = (if CurrentTurn g = ''white'' then ''black'' else ''white'')"
  define req where "req = \<lparr> rq_GameID = gid, rq_PlayerID = p, rq_From = f, rq_To = to,
                             rq_Piece = pc, rq_Notation = n \<rparr>"
  define g' where "g' = g\<lparr> Moves := Moves g @ [m], CurrentTurn := turn, UpdatedAt_g := t3 \<rparr>"
  have dom: "MakeMove g p f to pc n t1 t2 =
               (None, g\<lparr> Moves := Moves g @ [m], CurrentTurn := turn, UpdatedAt_g := t2 \<rparr>)"
    unfolding m_def turn_def by (rule MakeMove_in_turn [OF assms])
  have svc: "fst (MakeMove_svc s req t1 t2 t3) =
               Inr \<lparr> Message_gr = ''Move made successfully'', Game_gr = g',
                      GameID_gr = Hex gid \<rparr> \<and>
             map_option (\<lambda>d. (Moves d, CurrentTurn d))
               (find (\<lambda>d. ID_g d = gid) (docs_g (gameRepo (snd (MakeMove_svc s req t1 t2 t3))))) =
               Some (Moves g @ [m], turn)"
    if h: "faults_g (gameRepo s) = []"
          "find (\<lambda>d. ID_g d = gid) (docs_g (gameRepo s)) = Some g"
          "\<not> IsZero gid" "\<not> IsZero p" "f \<noteq> []" "to \<noteq> []"
  proof -
    have turn': "(CurrentTurn g = ''white'' \<and> rq_PlayerID req = WhitePlayer g) \<or>
                 (CurrentTurn g = ''black'' \<and> rq_PlayerID req = BlackPlayer g)"
      using assms(2) by (simp add: req_def)
    have eq: "MakeMove_svc s req t1 t2 t3 =
                (Inr \<lparr> Message_gr = ''Move made successfully'', Game_gr = g',
                       GameID_gr = Hex (rq_GameID req) \<rparr>,
                 s\<lparr> gameRepo := (gameRepo s)\<lparr> docs_g :=
                       UpdateOne_g (docs_g (gameRepo s)) (rq_GameID req) g' \<rparr> \<rparr>)"
      by (rule MakeMove_svc_in_turn [OF assms(1) turn'])
         (use h in \<open>simp_all add: req_def g'_def m_def turn_def\<close>)
    have idg': "ID_g g' = gid"
      using find_ID_g [OF h(2)] by (simp add: g'_def)
    have "find (\<lambda>d. ID_g d = gid) (UpdateOne_g (docs_g (gameRepo s)) gid g') =
            Some (set_fields g g')"
      by (rule find_UpdateOne_g [OF h(2) idg' h(3)])
    then have stored:
      "map_option (\<lambda>d. (Moves d, CurrentTurn d))
         (find (\<lambda>d. ID_g d = gid) (UpdateOne_g (docs_g (gameRepo s)) gid g')) =
         Some (Moves g @ [m], turn)"
      by (simp add: set_fields_def g'_def)
    have gid: "rq_GameID req = gid"
      by (simp add: req_def)
    show ?thesis
      unfolding eq gid using stored by simp
  qed
  show ?thesis
    using dom svc unfolding Let_def m_def turn_def req_def g'_def by blast
qed

theorem MakeMove_in_turn_appends_witness:
  "Status game1 = GameStatusActive \<and>
   ((CurrentTurn game1 = ''white'' \<and> 1 = WhitePlayer game1) \<or>
    (CurrentTurn game1 = ''black'' \<and> 1 = BlackPlayer game1)) \<and>
   faults_g (gameRepo \<lparr> gameRepo = \<lparr> docs_g = [game1], faults_g = [] \<rparr> \<rparr>) = [] \<and>
   find (\<lambda>d. ID_g d = 7)
     (docs_g (gameRepo \<lparr> gameRepo = \<lparr> docs_g = [game1], faults_g = [] \<rparr> \<rparr>)) = Some game1 \<and>
   \<not> IsZero 7 \<and> \<not> IsZero 1 \<and> ''e2'' \<noteq> [] \<and> ''e9'' \<noteq> [] \<and>
   MakeMove game1 1 ''e2'' ''e9'' ''dragon'' ''??'' 8 9 =
     (None, game1\<lparr> Moves := [move1], CurrentTurn := ''black'', UpdatedAt_g := 9 \<rparr>) \<and>
   fst (MakeMove_svc \<lparr> gameRepo = \<lparr> docs_g = [game1], faults_g = [] \<rparr> \<rparr>
          \<lparr> rq_GameID = 7, rq_PlayerID = 1, rq_From = ''e2'', rq_To = ''e9'',
            rq_Piece = ''dragon'', rq_Notation = ''??'' \<rparr> 8 9 10) =
     Inr \<lparr> Message_gr = ''Move made successfully'',
            Game_gr = game1\<lparr> Moves := [move1], CurrentTurn := ''black'', UpdatedAt_g := 10 \<rparr>,
            GameID_gr = Hex 7 \<rparr>"
proof -
  have a: "Status game1 = GameStatusActive"
    by (simp add: game1_def)
  have b: "(CurrentTurn game1 = ''white'' \<and> 1 = WhitePlayer game1) \<or>
           (CurrentTurn game1 = ''black'' \<and> 1 = BlackPlayer game1)"
    by (simp add: game1_def game0_def)
  have c: "find (\<lambda>d. ID_g d = 7) [game1] = Some game1"
    by (simp add: game1_def game0_def)
  have d: "Moves game1 = []" "CurrentTurn game1 = ''white''"
    by (simp_all add: game1_def game0_def)
  show ?thesis
    using a b c
      MakeMove_in_turn_appends [OF a b, where f = "''e2''" and to = "''e9''"
        and pc = "''dragon''" and n = "''??''" and ?t1.0 = 8 and ?t2.0 = 9 and ?t3.0 = 10
        and gid = 7 and s = "\<lparr> gameRepo = \<lparr> docs_g = [game1], faults_g = [] \<rparr> \<rparr>"]
    by (simp add: Let_def d move1_def IsZero_def)
qed

subsection \<open>The move list only grows\<close>

lemma call_Moves: "prefix (Moves g) (Moves (snd (call g c)))"
  by (cases c) (auto simp: game_op_defs Let_def)

lemma calls_Moves: "prefix (Moves g) (Moves (calls g cs))"
proof (induction cs arbitrary: g)
  case Nil
  show ?case by simp
next
  case (Cons c cs)
  have "prefix (Moves g) (Moves (snd (call g c)))"
    by (rule call_Moves)
  also have "prefix \<dots> (Moves (calls (snd (call g c)) cs))"
    by (rule Cons.IH)
  finally show ?case by simp
qed

text \<open>
  C9. \<open>JoinGame\<close>, \<open>ResignGame\<close> and \<open>FinishGame\<close> return the game with the move list
  they got, whether they fail or not. \<open>MakeMove\<close> returns either an error and the move
  list it got, or no error and that list with one move added at the end. So after any
  sequence of the four calls the move list the sequence started from is a prefix of the
  list it ends with: no move is removed, reordered or rewritten, and the four calls are
  all the entity has to change a game.
\<close>

theorem moves_append_only:
  "Moves (snd (JoinGame g b t)) = Moves g \<and>
   Moves (snd (ResignGame g p t)) = Moves g \<and>
   Moves (snd (FinishGame g r t)) = Moves g \<and>
   (fst (MakeMove g p f to pc n t1 t2) \<noteq> None \<longrightarrow>
      Moves (snd (MakeMove g p f to pc n t1 t2)) = Moves g) \<and>
   (fst (MakeMove g p f to pc n t1 t2) = None \<longrightarrow>
      (\<exists>m. Moves (snd (MakeMove g p f to pc n t1 t2)) = Moves g @ [m])) \<and>
   prefix (Moves g) (Moves (calls g cs))"
proof -
  have "Moves (snd (JoinGame g b t)) = Moves g"
    by (simp add: JoinGame_def)
  moreover have "Moves (snd (ResignGame g p t)) = Moves g"
    by (simp add: ResignGame_def)
  moreover have "Moves (snd (FinishGame g r t)) = Moves g"
    by (simp add: FinishGame_def)
  moreover have "fst (MakeMove g p f to pc n t1 t2) \<noteq> None \<longrightarrow>
      Moves (snd (MakeMove g p f to pc n t1 t2)) = Moves g"
    by (simp add: MakeMove_def Let_def)
  moreover have "fst (MakeMove g p f to pc n t1 t2) = None \<longrightarrow>
      (\<exists>m. Moves (snd (MakeMove g p f to pc n t1 t2)) = Moves g @ [m])"
    by (simp add: MakeMove_def Let_def)
  ultimately show ?thesis
    using calls_Moves [of g cs] by blast
qed

theorem moves_append_only_witness:
  "fst (MakeMove game1 2 ''e7'' ''e5'' ''pawn'' ''e5'' 8 9) \<noteq> None \<and>
   Moves (snd (MakeMove game1 2 ''e7'' ''e5'' ''pawn'' ''e5'' 8 9)) = Moves game1 \<and>
   fst (MakeMove game1 1 ''e2'' ''e9'' ''dragon'' ''??'' 8 9) = None \<and>
   (\<exists>m. Moves (snd (MakeMove game1 1 ''e2'' ''e9'' ''dragon'' ''??'' 8 9)) = Moves game1 @ [m])"
proof -
  have a: "fst (MakeMove game1 2 ''e7'' ''e5'' ''pawn'' ''e5'' 8 9) \<noteq> None"
    by (simp add: MakeMove_def game1_def game0_def)
  have b: "fst (MakeMove game1 1 ''e2'' ''e9'' ''dragon'' ''??'' 8 9) = None"
    by (simp add: MakeMove_def game1_def game0_def Let_def)
  show ?thesis
    using a b
      moves_append_only [where g = game1 and p = 2 and f = "''e7''" and to = "''e5''"
        and pc = "''pawn''" and n = "''e5''" and ?t1.0 = 8 and ?t2.0 = 9]
      moves_append_only [where g = game1 and p = 1 and f = "''e2''" and to = "''e9''"
        and pc = "''dragon''" and n = "''??''" and ?t1.0 = 8 and ?t2.0 = 9]
    by blast
qed

subsection \<open>The statuses a game goes through\<close>

lemma status_ok_NewGame: "NewGame w i t = Inr g \<Longrightarrow> status_ok g"
  by (auto simp: NewGame_def status_ok_def split: if_splits)

lemma status_ok_call: "status_ok g \<Longrightarrow> status_ok (snd (call g c))"
  by (cases c) (auto simp: status_ok_def game_op_defs Let_def)

lemma status_ok_calls: "status_ok g \<Longrightarrow> status_ok (calls g cs)"
  by (induction cs arbitrary: g) (simp_all add: status_ok_call)

lemma leave_active:
  "Status g = GameStatusActive \<Longrightarrow> Status (snd (call g c)) \<noteq> GameStatusActive \<Longrightarrow>
   Status (snd (call g c)) = GameStatusFinished"
  by (cases c) (auto simp: game_op_defs Let_def split: if_splits)

text \<open>
  C10. A game made by \<open>NewGame\<close> and taken through any sequence of \<open>JoinGame\<close>,
  \<open>MakeMove\<close>, \<open>ResignGame\<close> and \<open>FinishGame\<close> calls never has the status
  \<open>GameStatusAbandoned\<close>; and a call that takes any active game out of the active status
  leaves it with the status \<open>GameStatusFinished\<close>.
\<close>

theorem abandoned_status_unreachable:
  assumes "NewGame w i t = Inr g0"
  shows "Status (calls g0 cs) \<noteq> GameStatusAbandoned \<and>
         (Status g = GameStatusActive \<and> Status (snd (call g c)) \<noteq> GameStatusActive \<longrightarrow>
            Status (snd (call g c)) = GameStatusFinished)"
proof -
  have "status_ok (calls g0 cs)"
    by (rule status_ok_calls [OF status_ok_NewGame [OF assms]])
  then have "Status (calls g0 cs) \<noteq> GameStatusAbandoned"
    by (auto simp: status_ok_def game_status_defs)
  then show ?thesis
    using leave_active [of g c] by blast
qed

theorem abandoned_status_unreachable_witness:
  "NewGame 1 7 0 = Inr game0 \<and>
   Status (calls game0 [CallJoin 2 5, CallFinish GameResultAbandoned 6]) \<noteq> GameStatusAbandoned \<and>
   Status game1 = GameStatusActive \<and>
   Status (snd (call game1 (CallFinish GameResultAbandoned 6))) \<noteq> GameStatusActive \<and>
   Status (snd (call game1 (CallFinish GameResultAbandoned 6))) = GameStatusFinished"
proof -
  have a: "Status game1 = GameStatusActive"
    by (simp add: game1_def)
  have b: "Status (snd (call game1 (CallFinish GameResultAbandoned 6))) \<noteq> GameStatusActive"
    by (simp add: FinishGame_def a) (simp add: game_status_defs)
  show ?thesis
    using a b NewGame_game0
      abandoned_status_unreachable [OF NewGame_game0,
        where cs = "[CallJoin 2 5, CallFinish GameResultAbandoned 6]" and g = game1
          and c = "CallFinish GameResultAbandoned 6"]
    by blast
qed


section \<open>Properties of the authentication service\<close>

subsection \<open>Signing up under a name that is taken\<close>

lemma ExistsByUsername_docs: "docs_u (snd (ExistsByUsername r u)) = docs_u r"
  by (simp add: ExistsByUsername_def roundtrip_u_def split: list.splits option.splits)

text \<open>
  C6. When the repository's \<open>ExistsByUsername\<close> answers true for the request's username,
  \<open>Signup\<close> returns an error, the stored users are those from before and the session
  store is untouched: no user is saved and no session is created. For a request that
  passes the input checks, which is when \<open>Signup\<close> asks the repository, the error is
  "username already exists".
\<close>

theorem Signup_existing_username_rejected:
  assumes "fst (ExistsByUsername (userRepo s) (rq_Username req)) = Inr True"
  shows "(\<exists>e. fst (Signup s req hashed newID token now now2) = Inl e) \<and>
         docs_u (userRepo (snd (Signup s req hashed newID token now now2))) = docs_u (userRepo s) \<and>
         sessionRepo (snd (Signup s req hashed newID token now now2)) = sessionRepo s \<and>
         (rq_Username req \<noteq> [] \<and> rq_Password req \<noteq> [] \<and> 3 \<le> length (rq_Username req) \<and>
          6 \<le> length (rq_Password req) \<longrightarrow>
            fst (Signup s req hashed newID token now now2) = Inl ''username already exists'')"
proof -
  obtain u1 where e: "ExistsByUsername (userRepo s) (rq_Username req) = (Inr True, u1)"
    using assms by (cases "ExistsByUsername (userRepo s) (rq_Username req)") simp
  have d: "docs_u u1 = docs_u (userRepo s)"
    using ExistsByUsername_docs [of "userRepo s" "rq_Username req"] by (simp add: e)
  show ?thesis
    by (simp add: Signup_def e d)
qed

theorem Signup_existing_username_rejected_witness:
  "fst (ExistsByUsername (userRepo (NewAuthService users1 redis0))
          (rq_Username \<lparr> rq_Username = ''alice'', rq_Password = ''secret1'' \<rparr>)) = Inr True \<and>
   rq_Username \<lparr> rq_Username = ''alice'', rq_Password = ''secret1'' \<rparr> \<noteq> [] \<and>
   rq_Password \<lparr> rq_Username = ''alice'', rq_Password = ''secret1'' \<rparr> \<noteq> [] \<and>
   3 \<le> length (rq_Username \<lparr> rq_Username = ''alice'', rq_Password = ''secret1'' \<rparr>) \<and>
   6 \<le> length (rq_Password \<lparr> rq_Username = ''alice'', rq_Password = ''secret1'' \<rparr>) \<and>
   fst (Signup (NewAuthService users1 redis0)
          \<lparr> rq_Username = ''alice'', rq_Password = ''secret1'' \<rparr> (Inr ''$2a$10$other'') 2
          (Inr ''tok2'') 10 11) = Inl ''username already exists'' \<and>
   docs_u (userRepo (snd (Signup (NewAuthService users1 redis0)
          \<lparr> rq_Username = ''alice'', rq_Password = ''secret1'' \<rparr> (Inr ''$2a$10$other'') 2
          (Inr ''tok2'') 10 11))) = [user1] \<and>
   sessionRepo (snd (Signup (NewAuthService users1 redis0)
          \<lparr> rq_Username = ''alice'', rq_Password = ''secret1'' \<rparr> (Inr ''$2a$10$other'') 2
          (Inr ''tok2'') 10 11)) = redis0"
proof -
  have a: "fst (ExistsByUsername (userRepo (NewAuthService users1 redis0))
             (rq_Username \<lparr> rq_Username = ''alice'', rq_Password = ''secret1'' \<rparr>)) = Inr True"
    by (simp add: ExistsByUsername_def NewAuthService_def users1_def user1_def roundtrip_u_def)
  have b: "docs_u (userRepo (NewAuthService users1 redis0)) = [user1]"
          "sessionRepo (NewAuthService users1 redis0) = redis0"
    by (simp_all add: NewAuthService_def users1_def)
  show ?thesis
    using a b
      Signup_existing_username_rejected [OF a, where hashed = "Inr ''$2a$10$other''"
        and newID = 2 and token = "Inr ''tok2''" and now = 10 and ?now2.0 = 11]
    by simp
qed

subsection \<open>Deleting a user\<close>

lemma roundtrip_r_nofault: "faults_r R = [] \<Longrightarrow> roundtrip_r R = (None, R)"
  by (simp add: roundtrip_r_def)

lemma roundtrip_r_data:
  "strings (snd (roundtrip_r R)) = strings R" "sets (snd (roundtrip_r R)) = sets R"
  by (simp_all add: roundtrip_r_def split: list.splits)

lemma fold_DEL_strings:
  "strings (fold (\<lambda>sid Rp. DEL Rp (getKey sid)) sids R) k =
     (if k \<in> getKey ` set sids then None else strings R k)"
  by (induction sids arbitrary: R) (auto simp: DEL_def)

lemma fold_DEL_sets:
  "sets (fold (\<lambda>sid Rp. DEL Rp (getKey sid)) sids R) k =
     (if k \<in> getKey ` set sids then None else sets R k)"
  by (induction sids arbitrary: R) (auto simp: DEL_def)

lemma DEL_simps:
  "strings (DEL R k) = (strings R)(k := None)" "sets (DEL R k) = (sets R)(k := None)"
  "faults_r (DEL R k) = faults_r R"
  by (simp_all add: DEL_def)

lemma SMEMBERS_roundtrip: "SMEMBERS (snd (roundtrip_r R)) now k = SMEMBERS R now k"
  by (simp add: SMEMBERS_def roundtrip_r_data)

lemma GET_roundtrip: "GET (snd (roundtrip_r R)) now k = GET R now k"
  by (simp add: GET_def roundtrip_r_data)

lemma DeleteByUserID_ok:
  assumes "fst (DeleteByUserID R uid now) = None"
  shows "strings (snd (DeleteByUserID R uid now)) k =
           (if k \<in> getKey ` set (SMEMBERS R now (getUserSessionsKey uid)) \<or>
               (SMEMBERS R now (getUserSessionsKey uid) \<noteq> [] \<and> k = getUserSessionsKey uid)
            then None else strings R k)"
    and "now \<le> t \<Longrightarrow> SMEMBERS (snd (DeleteByUserID R uid now)) t (getUserSessionsKey uid) = []"
proof -
  obtain e1 R1 where r1: "roundtrip_r R = (e1, R1)" by (cases "roundtrip_r R")
  obtain e2 R2 where r2: "roundtrip_r R1 = (e2, R2)" by (cases "roundtrip_r R1")
  have d1: "strings R1 = strings R" "sets R1 = sets R"
    using roundtrip_r_data [of R] by (simp_all add: r1)
  have d2: "strings R2 = strings R" "sets R2 = sets R"
    using roundtrip_r_data [of R1] by (simp_all add: r2 d1)
  have m1: "SMEMBERS R1 now (getUserSessionsKey uid) = SMEMBERS R now (getUserSessionsKey uid)"
    by (simp add: SMEMBERS_def d1)
  have e1: "e1 = None"
    using assms by (cases e1) (simp_all add: DeleteByUserID_def r1)
  show "strings (snd (DeleteByUserID R uid now)) k =
           (if k \<in> getKey ` set (SMEMBERS R now (getUserSessionsKey uid)) \<or>
               (SMEMBERS R now (getUserSessionsKey uid) \<noteq> [] \<and> k = getUserSessionsKey uid)
            then None else strings R k)"
    using assms
    by (cases e2) (auto simp: DeleteByUserID_def r1 r2 e1 m1 Let_def DEL_simps fold_DEL_strings d1 d2)
  show "SMEMBERS (snd (DeleteByUserID R uid now)) t (getUserSessionsKey uid) = []" if "now \<le> t"
    using assms that
    by (cases e2) (auto simp: DeleteByUserID_def r1 r2 e1 m1 Let_def DEL_simps SMEMBERS_def d1 live_def split: option.splits if_splits)
qed

lemma NewSession_session0: "NewSession 1 (24 * Hour) (Inr ''tok'') 0 = Inr session0"
  by (simp add: NewSession_def session0_def IsZero_def Hour_def)

lemma Save_redis0: "Save redis0 (Some session0) 0 = (None, redis1)"
  by (simp add: Save_def session0_def redis0_def redis1_def IsZero_def Hour_def Let_def
      roundtrip_r_def SET_def SADD_def EXPIRE_def live_def usePrecise_def formatMs_def
      formatSec_def quo_def Millisecond_def Second_def)

lemma DeleteUser_runs_DeleteByUserID_first:
  "(fst (DeleteByUserID (sessionRepo s) uid now) \<noteq> None \<longrightarrow>
      fst (DeleteUser s uid now) = fst (DeleteByUserID (sessionRepo s) uid now) \<and>
      userRepo (snd (DeleteUser s uid now)) = userRepo s) \<and>
   (fst (DeleteByUserID (sessionRepo s) uid now) = None \<longrightarrow>
      sessionRepo (snd (DeleteUser s uid now)) = snd (DeleteByUserID (sessionRepo s) uid now) \<and>
      (fst (DeleteUser s uid now), userRepo (snd (DeleteUser s uid now))) =
        Delete_u (userRepo s) uid \<and>
      (\<forall>sid \<in> set (SMEMBERS (sessionRepo s) now (getUserSessionsKey uid)).
         strings (sessionRepo (snd (DeleteUser s uid now))) (getKey sid) = None))"
proof -
  let ?R = "sessionRepo s"
  let ?D = "DeleteByUserID ?R uid now"
  let ?usk = "getUserSessionsKey uid"
  have fail: "fst (DeleteUser s uid now) = fst ?D \<and> userRepo (snd (DeleteUser s uid now)) = userRepo s"
    if "fst ?D \<noteq> None"
    using that by (cases ?D) (auto simp: DeleteUser_def)
  have ok_repo: "sessionRepo (snd (DeleteUser s uid now)) = snd ?D"
    and ok_user: "(fst (DeleteUser s uid now), userRepo (snd (DeleteUser s uid now))) =
                    Delete_u (userRepo s) uid"
    if "fst ?D = None"
    using that by (cases ?D; cases "Delete_u (userRepo s) uid"; simp add: DeleteUser_def)+
  have ok_keys: "\<forall>sid \<in> set (SMEMBERS ?R now ?usk). strings (snd ?D) (getKey sid) = None"
    if "fst ?D = None"
    by (simp add: DeleteByUserID_ok(1) [OF that])
  show ?thesis
  proof (intro conjI impI)
    assume "fst ?D \<noteq> None"
    then show "fst (DeleteUser s uid now) = fst ?D" "userRepo (snd (DeleteUser s uid now)) = userRepo s"
      using fail by blast+
  next
    assume d: "fst ?D = None"
    show "sessionRepo (snd (DeleteUser s uid now)) = snd ?D"
      by (rule ok_repo [OF d])
    show "(fst (DeleteUser s uid now), userRepo (snd (DeleteUser s uid now))) =
            Delete_u (userRepo s) uid"
      by (rule ok_user [OF d])
    show "\<forall>sid \<in> set (SMEMBERS ?R now ?usk).
            strings (sessionRepo (snd (DeleteUser s uid now))) (getKey sid) = None"
      unfolding ok_repo [OF d] by (rule ok_keys [OF d])
  qed
qed

lemma Save_redis0_later: "Save redis0 (Some session0) Millisecond = (None, redis3)"
  by (simp add: Save_def session0_def redis0_def redis3_def IsZero_def Hour_def Let_def
      roundtrip_r_def SET_def SADD_def EXPIRE_def live_def usePrecise_def formatMs_def
      formatSec_def quo_def Millisecond_def Second_def getKey_def getUserSessionsKey_def)

lemma Signup_service3:
  "Signup (NewAuthService users0 redis0) \<lparr> rq_Username = ''alice'', rq_Password = ''secret1'' \<rparr>
     (Inr ''$2a$10$hash'') 1 (Inr ''tok'') 0 Millisecond =
     (Inr \<lparr> Message_ar = ''User registered successfully'', UserID_ar = Hex 1,
            SessionID_ar = ''tok'', User_ar = user1 \<rparr>, service3)"
proof -
  have e: "ExistsByUsername users0 ''alice'' = (Inr False, users0)"
    by (simp add: ExistsByUsername_def roundtrip_u_def users0_def)
  have u: "NewUser ''alice'' ''secret1'' (Inr ''$2a$10$hash'') 1 0 = Inr user1"
    by (simp add: NewUser_def user1_def)
  have su: "Save_u users0 (Some user1) 0 = (None, users1, Some user1)"
    by (simp add: Save_u_def roundtrip_u_def users0_def users1_def user1_def zeroTime_def Let_def)
  have i: "ID_u user1 = 1"
    by (simp add: user1_def)
  have t: "ID_s session0 = ''tok''"
    by (simp add: session0_def)
  show ?thesis
    by (simp add: Signup_def NewAuthService_def e u su i t NewSession_session0
        Save_redis0_later service3_def)
qed

text \<open>
  C8, evaluated. A user signs up; the session is made at time 0 and saved a millisecond
  later, so its key is given 86399999 milliseconds and the user's session set 86399
  seconds. Half a second before the session expires the set is gone and the key is not:
  \<open>DeleteByUserID\<close> finds no member, \<open>DeleteUser\<close> returns nil and the user record is
  deleted, and after that \<open>FindByID\<close> returns the session and \<open>ValidateSession\<close> the
  identifier of the deleted user.
\<close>

theorem DeleteUser_leaves_live_session:
  "Signup (NewAuthService users0 redis0) \<lparr> rq_Username = ''alice'', rq_Password = ''secret1'' \<rparr>
     (Inr ''$2a$10$hash'') 1 (Inr ''tok'') 0 Millisecond =
     (Inr \<lparr> Message_ar = ''User registered successfully'', UserID_ar = Hex 1,
            SessionID_ar = ''tok'', User_ar = user1 \<rparr>, service3) \<and>
   userRepo service3 = users1 \<and>
   DeleteUser service3 1 (86399 * Second + 500 * Millisecond) =
     (None, service3\<lparr> userRepo := users0 \<rparr>) \<and>
   FindByID 1 (sessionRepo (service3\<lparr> userRepo := users0 \<rparr>)) ''tok''
     (86399 * Second + 500 * Millisecond) = Some (Inr session0, redis3) \<and>
   UserID session0 = 1 \<and>
   ValidateSession 1 (service3\<lparr> userRepo := users0 \<rparr>) ''tok''
     (86399 * Second + 500 * Millisecond) (86399 * Second + 500 * Millisecond) =
     Some (Inr 1, service3\<lparr> userRepo := users0 \<rparr>)"
proof -
  let ?t = "86399 * Second + 500 * Millisecond"
  have nf: "roundtrip_r redis3 = (None, redis3)"
    by (simp add: roundtrip_r_def redis3_def)
  have mem: "SMEMBERS redis3 ?t (getUserSessionsKey 1) = []"
    by (simp add: SMEMBERS_def redis3_def live_def Second_def Millisecond_def)
  have dby: "DeleteByUserID redis3 1 ?t = (None, redis3)"
    by (simp add: DeleteByUserID_def nf mem Let_def)
  have du: "Delete_u users1 1 = (None, users0)"
    by (simp add: Delete_u_def roundtrip_u_def users1_def users0_def user1_def Let_def)
  have del: "DeleteUser service3 1 ?t = (None, service3\<lparr> userRepo := users0 \<rparr>)"
    by (simp add: DeleteUser_def service3_def dby du)
  have get: "GET redis3 ?t (getKey ''tok'') = Some session0"
    by (simp add: GET_def redis3_def live_def Second_def Millisecond_def Hour_def)
  have valid: "\<not> IsExpired session0 ?t"
    by (simp add: IsExpired_def session0_def Second_def Millisecond_def Hour_def)
  have find0: "FindByID (Suc 0) redis3 ''tok'' ?t = Some (Inr session0, redis3)"
    by (simp add: nf get valid)
  then have find: "FindByID 1 redis3 ''tok'' ?t = Some (Inr session0, redis3)"
    by simp
  have sr: "sessionRepo (service3\<lparr> userRepo := users0 \<rparr>) = redis3"
    by (simp add: service3_def)
  have uid: "UserID session0 = 1"
    by (simp add: session0_def)
  have val: "ValidateSession 1 (service3\<lparr> userRepo := users0 \<rparr>) ''tok'' ?t ?t =
               Some (Inr 1, service3\<lparr> userRepo := users0 \<rparr>)"
    by (simp add: ValidateSession_def sr nf get valid uid)
  have ur: "userRepo service3 = users1"
    by (simp add: service3_def)
  show ?thesis
    unfolding sr using Signup_service3 ur del find uid val by blast
qed

section \<open>Properties of the session lifecycle\<close>


lemma expired_never_returns:
  assumes "faults_r R = []" and "GET R now (getKey sid) = Some sess" and "IsExpired sess now"
  shows "FindByID fuel R sid now = None \<and> Delete fuel R sid now = None"
proof (induction fuel)
  case 0
  show ?case by simp
next
  case (Suc n)
  then show ?case
    using assms by (simp add: roundtrip_r_nofault)
qed

lemma FindByID_redis1: "FindByID (Suc n) redis1 ''tok'' (12 * Hour) = Some (Inr session0, redis1)"
  by (simp add: roundtrip_r_def GET_def redis1_def live_def Hour_def IsExpired_def session0_def)

lemma Refresh_redis1: "Refresh (Suc n) redis1 ''tok'' (24 * Hour) (12 * Hour) = Some (None, redis2)"
  unfolding Refresh_def FindByID_redis1
  by (simp add: roundtrip_r_def redis1_def redis2_def EXPIRE_def live_def Hour_def session0_def
      getKey_def getUserSessionsKey_def fun_upd_twist formatSec_def quo_def Second_def Let_def)

lemma RefreshSession_redis1:
  "RefreshSession (Suc n) (NewAuthService users1 redis1) ''tok'' (12 * Hour) =
     Some (None, NewAuthService users1 redis2)"
  by (simp add: RefreshSession_def NewAuthService_def Refresh_redis1)

lemma GET_redis2: "GET redis2 (30 * Hour) (getKey ''tok'') = Some session0"
  by (simp add: GET_def redis2_def live_def Hour_def)

lemma session0_expired: "IsExpired session0 (30 * Hour)"
  by (simp add: IsExpired_def session0_def Hour_def)

text \<open>
  C1, evaluated. A session made at time 0 with the service's TTL of 24 hours is saved and,
  at 12 hours, refreshed through \<open>RefreshSession\<close>, which returns nil: the keys now live
  until 36 hours, and the stored session still says that it expires at 24 hours. At 30
  hours, within 24 hours of the refresh, the key is there, and neither \<open>FindByID\<close> nor
  \<open>ValidateSession\<close> returns the session or its user: whatever the depth allowed, the
  call has not returned.
\<close>

theorem refreshed_session_still_expires:
  "NewSession 1 (24 * Hour) (Inr ''tok'') 0 = Inr session0 \<and>
   Save redis0 (Some session0) 0 = (None, redis1) \<and>
   RefreshSession 1 (NewAuthService users1 redis1) ''tok'' (12 * Hour) =
     Some (None, NewAuthService users1 redis2) \<and>
   12 * Hour < 30 * Hour \<and>
   30 * Hour < 12 * Hour + sessionTTL (NewAuthService users1 redis1) \<and>
   GET redis2 (30 * Hour) (getKey ''tok'') = Some session0 \<and>
   (\<forall>fuel. FindByID fuel redis2 ''tok'' (30 * Hour) = None) \<and>
   (\<forall>fuel. ValidateSession fuel (NewAuthService users1 redis2) ''tok'' (30 * Hour) (30 * Hour) = None)"
proof -
  have nf: "faults_r redis2 = []"
    by (simp add: redis2_def)
  have stuck: "FindByID fuel redis2 ''tok'' (30 * Hour) = None" for fuel
    using expired_never_returns [OF nf GET_redis2 session0_expired] by blast
  have v: "ValidateSession fuel (NewAuthService users1 redis2) ''tok'' (30 * Hour) (30 * Hour) = None" for fuel
    by (simp add: ValidateSession_def NewAuthService_def stuck)
  have w: "12 * Hour < 30 * Hour" "30 * Hour < 12 * Hour + sessionTTL (NewAuthService users1 redis1)"
    by (simp_all add: Hour_def NewAuthService_def)
  have r: "RefreshSession 1 (NewAuthService users1 redis1) ''tok'' (12 * Hour) =
     Some (None, NewAuthService users1 redis2)"
    using RefreshSession_redis1 [of 0] by simp
  show ?thesis
    using NewSession_session0 Save_redis0 r w GET_redis2 stuck v by blast
qed


lemma GET_earlier:
  assumes "GET R t (getKey sid) = Some sess" and "t0 \<le> t"
  shows "GET R t0 (getKey sid) = Some sess"
  using assms by (auto simp: GET_def live_def split: option.splits if_splits)

text \<open>
  C7, as the code behaves. A session is expired at \<open>t\<close> exactly when \<open>t\<close> is after its
  \<open>ExpiresAt\<close>. For a session that is expired at \<open>t\<close> and still under its key, with a
  store that reports no failure, \<open>FindByID\<close> at \<open>t\<close> calls \<open>Delete\<close>, which calls
  \<open>FindByID\<close>, and so on: at no depth does either return, so no error is returned and
  the key is never removed. \<open>ValidateSession\<close> whose own expiry check is at \<open>t\<close> does
  not return either, whether its \<open>FindByID\<close> (at \<open>t0\<close>, not after \<open>t\<close>) already
  met the expired session or only its own check did.
\<close>

theorem expired_session_never_cleaned_up:
  assumes nf: "faults_r (sessionRepo s) = []"
    and sid: "sid \<noteq> []"
    and present: "GET (sessionRepo s) t (getKey sid) = Some sess"
    and expired: "IsExpired sess t"
    and later: "t0 \<le> t"
  shows "IsExpired sess t = (ExpiresAt sess < t) \<and>
         FindByID fuel (sessionRepo s) sid t = None \<and>
         Delete fuel (sessionRepo s) sid t = None \<and>
         ValidateSession fuel s sid t0 t = None"
proof -
  note stuck = expired_never_returns [OF nf present expired]
  have present0: "GET (sessionRepo s) t0 (getKey sid) = Some sess"
    by (rule GET_earlier [OF present later])
  have v: "ValidateSession fuel s sid t0 t = None"
  proof (cases "IsExpired sess t0")
    case True
    then show ?thesis
      using expired_never_returns [OF nf present0 True, of fuel] sid
      by (simp add: ValidateSession_def)
  next
    case False
    show ?thesis
    proof (cases fuel)
      case 0
      then show ?thesis using sid by (simp add: ValidateSession_def)
    next
      case (Suc n)
      have "FindByID (Suc n) (sessionRepo s) sid t0 = Some (Inr sess, sessionRepo s)"
        using False by (simp add: roundtrip_r_nofault [OF nf] present0)
      then show ?thesis
        using stuck [of fuel] expired sid by (simp add: ValidateSession_def Suc)
    qed
  qed
  show ?thesis
    using stuck [of fuel] v by (simp add: IsExpired_def)
qed

theorem expired_session_never_cleaned_up_witness:
  "faults_r (sessionRepo (NewAuthService users1 redis2)) = [] \<and>
   ''tok'' \<noteq> [] \<and>
   GET (sessionRepo (NewAuthService users1 redis2)) (30 * Hour) (getKey ''tok'') = Some session0 \<and>
   IsExpired session0 (30 * Hour) \<and>
   20 * Hour \<le> 30 * Hour \<and>
   FindByID 1000 (sessionRepo (NewAuthService users1 redis2)) ''tok'' (30 * Hour) = None \<and>
   Delete 1000 (sessionRepo (NewAuthService users1 redis2)) ''tok'' (30 * Hour) = None \<and>
   ValidateSession 1000 (NewAuthService users1 redis2) ''tok'' (20 * Hour) (30 * Hour) = None"
proof -
  have sr: "sessionRepo (NewAuthService users1 redis2) = redis2"
    by (simp add: NewAuthService_def)
  have a: "faults_r (sessionRepo (NewAuthService users1 redis2)) = []"
    unfolding sr by (simp add: redis2_def)
  have b: "''tok'' \<noteq> []"
    by simp
  have c: "GET (sessionRepo (NewAuthService users1 redis2)) (30 * Hour) (getKey ''tok'') = Some session0"
    unfolding sr by (rule GET_redis2)
  have d: "20 * Hour \<le> 30 * Hour"
    by (simp add: Hour_def)
  show ?thesis
    using a b c d session0_expired
      expired_session_never_cleaned_up [OF a b c session0_expired d, of 1000]
    by blast
qed

end
